theory Spec2Isabelle
  imports Main "HOL-Library.Multiset"
begin

section \<open>Library functions used by the tag parser\<close>

text \<open>
  Go strings are byte sequences, as \<^typ>\<open>string\<close> is. The functions of this section are
  the ones of Go's standard library that \<open>parseStruct\<close> calls, restricted to the way it
  calls them (the separator of \<open>strings.Split\<close> and \<open>strings.LastIndex\<close> is one byte).
\<close>

text \<open>
  \<open>strings.TrimSpace\<close> on the ASCII white space \<open>\t \n \v \f \r\<close> and the blank. The
  Unicode spaces beyond ASCII, which are several bytes in UTF-8, are not trimmed here.
\<close>

definition isSpace :: "char \<Rightarrow> bool" where
  "isSpace c \<longleftrightarrow> c = CHR 0x09 \<or> c = CHR 0x0A \<or> c = CHR 0x0B \<or> c = CHR 0x0C
     \<or> c = CHR 0x0D \<or> c = CHR 0x20"

definition TrimSpace :: "string \<Rightarrow> string" where
  "TrimSpace s = rev (dropWhile isSpace (rev (dropWhile isSpace s)))"

text \<open>\<open>strings.Split(s, sep)\<close>: one more piece than there are separators, never empty.\<close>

fun Split :: "string \<Rightarrow> char \<Rightarrow> string list" where
  "Split [] sep = [[]]"
| "Split (c # cs) sep =
     (if c = sep then [] # Split cs sep
      else (case Split cs sep of [] \<Rightarrow> [[c]] | p # ps \<Rightarrow> (c # p) # ps))"

text \<open>\<open>strings.LastIndex(s, sep)\<close>: the index of the last separator, or \<open>-1\<close>.\<close>

fun LastIndex :: "string \<Rightarrow> char \<Rightarrow> int" where
  "LastIndex [] sep = - 1"
| "LastIndex (c # cs) sep =
     (let r = LastIndex cs sep in
      if r \<noteq> - 1 then r + 1 else if c = sep then 0 else - 1)"

text \<open>
  \<open>strconv.Atoi\<close>: an optional sign, then one or more decimal digits; the value has to
  fit the type \<open>int\<close>, taken as 64 bits wide. \<open>None\<close> is the error return. A digit
  is read as the library does, \<open>ch -= '0'\<close> on a byte, which is refused above nine.
\<close>

definition digitVal :: "char \<Rightarrow> int option" where
  "digitVal c =
     (let ch = (of_char c + 256 - of_char CHR ''0'') mod 256 :: nat in
      if ch > 9 then None else Some (int ch))"

fun parseDigits :: "string \<Rightarrow> int \<Rightarrow> int option" where
  "parseDigits [] n = Some n"
| "parseDigits (c # cs) n =
     (case digitVal c of None \<Rightarrow> None | Some d \<Rightarrow> parseDigits cs (n * 10 + d))"

definition Atoi :: "string \<Rightarrow> int option" where
  "Atoi s =
     (case s of
        [] \<Rightarrow> None
      | c # cs \<Rightarrow>
          (let body = (if c = CHR ''-'' \<or> c = CHR ''+'' then cs else s) in
           if body = [] then None
           else (case parseDigits body 0 of
                   None \<Rightarrow> None
                 | Some n \<Rightarrow>
                     (let v = (if c = CHR ''-'' then - n else n) in
                      if v < - (2 ^ 63) \<or> 2 ^ 63 - 1 < v then None else Some v))))"




section \<open>The syntax tree of a record declaration\<close>

text \<open>
  The type expressions of \<open>go/ast\<close> that the generator tells apart. An array type holds
  its length expression (\<open>None\<close> for a slice). Every other node is \<open>OtherExpr\<close> with the
  name that \<open>%T\<close> prints for it.
\<close>

datatype expr =
    Ident string
  | SelectorExpr expr string
  | StarExpr expr
  | ArrayType "expr option" expr
  | MapType expr expr
  | InterfaceType
  | ChanType expr
  | FuncType
  | BasicLit string
  | OtherExpr string

text \<open>
  A field of the record declaration. \<open>Tag\<close> is \<open>None\<close> for a field without a tag, and
  otherwise the value that \<open>reflect.StructTag.Get\<close> returns for the key \<open>protobuf\<close> (the
  empty string when the key is missing).
\<close>

record Field =
  Names :: "string list"
  Type :: expr
  Tag :: "string option"


section \<open>Descriptors (types.go)\<close>

record OneofVariant =
  TypeName :: string
  VFieldNum :: int

record FieldInfo =
  Name :: string
  GoType :: string
  FieldNum :: int
  ProtoType :: string
  IsRepeated :: bool
  IsMessage :: bool
  IsPointer :: bool
  IsSliceOfPtr :: bool
  IsOptional :: bool
  IsEnum :: bool
  IsMap :: bool
  IsCustom :: bool
  ElemType :: string
  RawElemType :: string
  BaseType :: string
  NeedsTypeConv :: bool
  ConvType :: string
  MapKeyType :: string
  MapValueType :: string
  MapKeyProto :: string
  MapValueProto :: string
  MapValueIsMsg :: bool
  MapValueIsPtr :: bool
  MapValueCustom :: bool
  IsOneof :: bool
  OneofVariants :: "OneofVariant list"

record TypeInfo =
  TName :: string
  Fields :: "FieldInfo list"


section \<open>Diagnostics\<close>

text \<open>
  One constructor for each \<open>fmt.Errorf\<close> of \<open>parseStruct\<close> and of
  \<open>validateOneofFieldType\<close>, with the arguments of the call in their order.
\<close>

datatype error =
    OneofOnPrimitive string
  | OneofOnArray string
  | OneofOnMap string
  | OneofOnPointer string
  | OneofOnChan string
  | OneofOnFunc
  | OneofOnOther string
  | InvalidOneofField string string error
  | OneofNoVariants string
  | OneofVariantFormat string string
  | OneofVariantNotNumber string string
  | OneofVariantRange int string
  | OneofVariantReserved int string
  | OneofDuplicate int string string
  | FieldNumNotNumber string
  | FieldNumTooLow int string
  | FieldNumTooHigh int string
  | FieldNumReserved int string
  | InvalidProtoType string string
  | InterfaceNotSupported string string string
  | InvalidMapKey string string
  | NoEmbeddedName string string
  | DuplicateWithVariant int string string string
  | DuplicateField int string string string



section \<open>Validation tables (validation.go)\<close>

definition validProtoTypes :: "string \<rightharpoonup> bool" where
  "validProtoTypes = map_of
     [(''string'', True), (''bytes'', True), (''int32'', True), (''int64'', True),
      (''uint32'', True), (''uint64'', True), (''sint32'', True), (''sint64'', True),
      (''bool'', True), (''double'', True), (''float'', True), (''fixed32'', True),
      (''fixed64'', True), (''sfixed32'', True), (''sfixed64'', True), (''message'', True),
      (''enum'', True), (''map'', True), (''oneof'', True)]"

definition validMapKeyTypes :: "string \<rightharpoonup> bool" where
  "validMapKeyTypes = map_of
     [(''string'', True), (''int32'', True), (''int64'', True), (''uint32'', True),
      (''uint64'', True), (''sint32'', True), (''sint64'', True), (''fixed32'', True),
      (''fixed64'', True), (''sfixed32'', True), (''sfixed64'', True), (''bool'', True)]"

text \<open>Reading a Go map at a missing key gives the zero value \<open>false\<close>.\<close>

definition isValidProtoType :: "string \<Rightarrow> bool" where
  "isValidProtoType protoType = (case validProtoTypes protoType of Some b \<Rightarrow> b | None \<Rightarrow> False)"

definition isValidMapKeyType :: "string \<Rightarrow> bool" where
  "isValidMapKeyType protoType = (case validMapKeyTypes protoType of Some b \<Rightarrow> b | None \<Rightarrow> False)"


section \<open>Walking a type expression\<close>

fun exprToString :: "expr \<Rightarrow> string" where
  "exprToString (Ident name) = name"
| "exprToString (SelectorExpr x sel) = exprToString x @ ''.'' @ sel"
| "exprToString (StarExpr x) = ''*'' @ exprToString x"
| "exprToString (ArrayType None elt) = ''[]'' @ exprToString elt"
| "exprToString (ArrayType (Some len) elt) =
     ''['' @ exprToString len @ '']'' @ exprToString elt"
| "exprToString (BasicLit v) = v"
| "exprToString (MapType k v) = ''map['' @ exprToString k @ '']'' @ exprToString v"
| "exprToString InterfaceType = ''*ast.InterfaceType''"
| "exprToString (ChanType _) = ''*ast.ChanType''"
| "exprToString FuncType = ''*ast.FuncType''"
| "exprToString (OtherExpr t) = t"

definition primitiveNames :: "string list" where
  "primitiveNames =
     [''string'', ''bool'', ''byte'', ''rune'',
      ''int'', ''int8'', ''int16'', ''int32'', ''int64'',
      ''uint'', ''uint8'', ''uint16'', ''uint32'', ''uint64'',
      ''float32'', ''float64'', ''complex64'', ''complex128'',
      ''uintptr'']"

text \<open>\<open>None\<close> is the \<open>nil\<close> error.\<close>

fun validateOneofFieldType :: "expr \<Rightarrow> error option" where
  "validateOneofFieldType (Ident name) =
     (if name \<in> set primitiveNames then Some (OneofOnPrimitive name) else None)"
| "validateOneofFieldType InterfaceType = None"
| "validateOneofFieldType (ArrayType len elt) =
     Some (OneofOnArray (exprToString (ArrayType len elt)))"
| "validateOneofFieldType (MapType k v) = Some (OneofOnMap (exprToString (MapType k v)))"
| "validateOneofFieldType (StarExpr x) = Some (OneofOnPointer (exprToString (StarExpr x)))"
| "validateOneofFieldType (ChanType x) = Some (OneofOnChan (exprToString (ChanType x)))"
| "validateOneofFieldType FuncType = Some OneofOnFunc"
| "validateOneofFieldType (SelectorExpr x sel) = None"
| "validateOneofFieldType e = Some (OneofOnOther (exprToString e))"

fun getTypeName :: "expr \<Rightarrow> string" where
  "getTypeName (Ident name) = name"
| "getTypeName (SelectorExpr x sel) = sel"
| "getTypeName (StarExpr x) = getTypeName x"
| "getTypeName _ = []"

fun inferProtoType :: "expr \<Rightarrow> string" where
  "inferProtoType (Ident name) =
     (if name = ''string'' then ''string''
      else if name = ''bool'' then ''bool''
      else if name = ''int32'' then ''int32''
      else if name = ''int64'' then ''int64''
      else if name = ''int'' then ''int64''
      else if name = ''uint32'' then ''uint32''
      else if name = ''uint64'' then ''uint64''
      else if name = ''uint'' then ''uint64''
      else if name = ''float32'' then ''float''
      else if name = ''float64'' then ''double''
      else if name = ''byte'' then ''int32''
      else if name = ''any'' then ''interface''
      else ''message'')"
| "inferProtoType InterfaceType = ''interface''"
| "inferProtoType (SelectorExpr x sel) = ''message''"
| "inferProtoType (StarExpr x) = inferProtoType x"
| "inferProtoType (ArrayType None elt) =
     (if elt = Ident ''byte'' then ''bytes'' else inferProtoType elt)"
| "inferProtoType (ArrayType (Some len) elt) = inferProtoType elt"
| "inferProtoType (MapType k v) = ''map''"
| "inferProtoType _ = ''bytes''"

fun analyzeType :: "FieldInfo \<Rightarrow> expr \<Rightarrow> FieldInfo" where
  "analyzeType fi (Ident name) = fi\<lparr>BaseType := name, ElemType := name, RawElemType := name\<rparr>"
| "analyzeType fi (SelectorExpr x sel) =
     (let fullType = exprToString (SelectorExpr x sel) in
      fi\<lparr>BaseType := fullType, ElemType := fullType, RawElemType := fullType\<rparr>)"
| "analyzeType fi (StarExpr x) =
     (let inner = exprToString x in
      fi\<lparr>IsPointer := True, IsOptional := True,
         BaseType := inner, ElemType := inner, RawElemType := inner\<rparr>)"
| "analyzeType fi (ArrayType None elt) =
     (if elt = Ident ''byte''
      then fi\<lparr>BaseType := ''[]byte'', ElemType := ''byte'', RawElemType := ''byte''\<rparr>
      else (case elt of
              StarExpr x \<Rightarrow>
                fi\<lparr>IsRepeated := True, IsSliceOfPtr := True, ElemType := exprToString x,
                   RawElemType := ''*'' @ exprToString x, BaseType := exprToString x\<rparr>
            | _ \<Rightarrow>
                fi\<lparr>IsRepeated := True, ElemType := exprToString elt,
                   RawElemType := exprToString elt, BaseType := exprToString elt\<rparr>))"
| "analyzeType fi (ArrayType (Some len) elt) = fi"
| "analyzeType fi _ = fi"


section \<open>The metadata parser: \<open>parseStruct\<close>\<close>

text \<open>
  The local variables that the body of the loop over the declared fields computes from
  one field before it registers the field's names.
\<close>

record TagInfo =
  fieldNum :: int
  protoType :: string
  isRepeated :: bool
  isOptional :: bool
  isEnum :: bool
  isMap :: bool
  isCustom :: bool
  isOneof :: bool
  oneofVariants :: "OneofVariant list"
  mapKeyProto :: string
  mapValueProto :: string
  mapValueCustom :: bool
  fieldNames :: "string list"

text \<open>\<open>field.Names[0].Name\<close>, or the empty string for an embedded field.\<close>

definition firstName :: "Field \<Rightarrow> string" where
  "firstName field = (case Names field of [] \<Rightarrow> [] | n # _ \<Rightarrow> n)"

text \<open>
  The loop over \<open>parts[1:]\<close> of a oneof tag; the second argument is what is left of it,
  the third is \<open>oneofVariants\<close>.
\<close>

fun parseVariants :: "string \<Rightarrow> string list \<Rightarrow> OneofVariant list \<Rightarrow> error + OneofVariant list" where
  "parseVariants protoTag [] vs = Inr vs"
| "parseVariants protoTag (p # ps) vs =
     (let part = TrimSpace p; colonIdx = LastIndex part CHR '':'' in
      if colonIdx = - 1 then Inl (OneofVariantFormat part protoTag)
      else
        (let variantType = TrimSpace (take (nat colonIdx) part) in
         case Atoi (TrimSpace (drop (nat (colonIdx + 1)) part)) of
           None \<Rightarrow> Inl (OneofVariantNotNumber part protoTag)
         | Some variantFieldNum \<Rightarrow>
             if variantFieldNum < 1 \<or> variantFieldNum > 536870911
             then Inl (OneofVariantRange variantFieldNum variantType)
             else if variantFieldNum \<ge> 19000 \<and> variantFieldNum \<le> 19999
             then Inl (OneofVariantReserved variantFieldNum variantType)
             else
               (case find (\<lambda>existing. VFieldNum existing = variantFieldNum) vs of
                  Some existing \<Rightarrow>
                    Inl (OneofDuplicate variantFieldNum (TypeName existing) variantType)
                | None \<Rightarrow>
                    parseVariants protoTag ps
                      (vs @ [\<lparr>TypeName = variantType, VFieldNum = variantFieldNum\<rparr>]))))"

text \<open>The branch \<open>if isOneof\<close>: the field's type, the number of parts, the variants.\<close>

definition parseOneof :: "string \<Rightarrow> Field \<Rightarrow> string \<Rightarrow> string list \<Rightarrow> error + OneofVariant list" where
  "parseOneof typeName field protoTag parts =
     (case validateOneofFieldType (Type field) of
        Some err \<Rightarrow> Inl (InvalidOneofField (firstName field) typeName err)
      | None \<Rightarrow>
          if length parts < 2 then Inl (OneofNoVariants protoTag)
          else parseVariants protoTag (tl parts) [])"

text \<open>The branch of an ordinary field: its number and the range of the number.\<close>

definition parseFieldNum :: "string \<Rightarrow> string list \<Rightarrow> error + int" where
  "parseFieldNum protoTag parts =
     (case Atoi (TrimSpace (hd parts)) of
        None \<Rightarrow> Inl (FieldNumNotNumber protoTag)
      | Some n \<Rightarrow>
          if n < 1 then Inl (FieldNumTooLow n protoTag)
          else if n > 536870911 then Inl (FieldNumTooHigh n protoTag)
          else if n \<ge> 19000 \<and> n \<le> 19999 then Inl (FieldNumReserved n protoTag)
          else Inr n)"

text \<open>The wire type: \<open>oneof\<close>, the second part of the tag, or inferred from the type.\<close>

definition selectProtoType :: "bool \<Rightarrow> string \<Rightarrow> string list \<Rightarrow> expr \<Rightarrow> error + string" where
  "selectProtoType oneof protoTag parts ftype =
     (if oneof then Inr ''oneof''
      else if length parts \<ge> 2 then
        (let pt = TrimSpace (parts ! 1) in
         if \<not> isValidProtoType pt then Inl (InvalidProtoType pt protoTag) else Inr pt)
      else Inr (inferProtoType ftype))"

text \<open>The key and value wire types of a map, and the check of the key.\<close>

definition mapKeyValue :: "bool \<Rightarrow> string \<Rightarrow> string list \<Rightarrow> expr \<Rightarrow> error + (string \<times> string)" where
  "mapKeyValue ismap protoTag parts ftype =
     (if ismap then
        (let kv = (if length parts \<ge> 4 then (TrimSpace (parts ! 2), TrimSpace (parts ! 3))
                   else (case ftype of
                           MapType k v \<Rightarrow> (inferProtoType k, inferProtoType v)
                         | _ \<Rightarrow> ([], [])))
         in if \<not> isValidMapKeyType (fst kv) then Inl (InvalidMapKey (fst kv) protoTag)
            else Inr kv)
      else Inr ([], []))"

text \<open>One step of the loop over the option words; an unknown word changes nothing.\<close>

definition applyOption :: "TagInfo \<Rightarrow> string \<Rightarrow> TagInfo" where
  "applyOption t part =
     (let w = TrimSpace part in
      if w = ''repeated'' then t\<lparr>isRepeated := True\<rparr>
      else if w = ''optional'' then t\<lparr>isOptional := True\<rparr>
      else if w = ''enum'' then t\<lparr>isEnum := True\<rparr>
      else if w = ''custom''
      then (if isMap t then t\<lparr>isCustom := True, mapValueCustom := True\<rparr>
            else t\<lparr>isCustom := True\<rparr>)
      else t)"

definition parseOptions :: "TagInfo \<Rightarrow> string list \<Rightarrow> TagInfo" where
  "parseOptions t parts =
     (if \<not> isOneof t then
        (let optionStart = (if isMap t \<and> length parts \<ge> 4 then 4 else 2) in
         if length parts > optionStart then foldl applyOption t (drop optionStart parts)
         else t)
      else t)"

text \<open>The names of the field; an embedded field is named after its type.\<close>

definition namesOf :: "string \<Rightarrow> Field \<Rightarrow> string \<Rightarrow> error + string list" where
  "namesOf typeName field protoTag =
     (if Names field = [] then
        (let embeddedName = getTypeName (Type field) in
         if embeddedName = [] then Inl (NoEmbeddedName protoTag typeName)
         else Inr [embeddedName])
      else Inr (Names field))"

text \<open>The field number: the sentinel \<open>-1\<close> and the variants of a oneof, or the number.\<close>

definition parseNumber :: "bool \<Rightarrow> string \<Rightarrow> Field \<Rightarrow> string \<Rightarrow> string list \<Rightarrow> error + (int \<times> OneofVariant list)" where
  "parseNumber oneof typeName field protoTag parts =
     (if oneof
      then (case parseOneof typeName field protoTag parts of
              Inl e \<Rightarrow> Inl e | Inr vs \<Rightarrow> Inr (- 1, vs))
      else (case parseFieldNum protoTag parts of
              Inl e \<Rightarrow> Inl e | Inr n \<Rightarrow> Inr (n, [])))"

text \<open>The local variables as they stand before the option words are read.\<close>

definition initLocals :: "bool \<Rightarrow> int \<Rightarrow> OneofVariant list \<Rightarrow> string \<Rightarrow> string \<Rightarrow> string \<Rightarrow> TagInfo" where
  "initLocals oneof num variants pt k v =
     \<lparr>fieldNum = num, protoType = pt, isRepeated = False, isOptional = False,
      isEnum = (pt = ''enum''), isMap = (pt = ''map''), isCustom = False, isOneof = oneof,
      oneofVariants = variants, mapKeyProto = k, mapValueProto = v, mapValueCustom = False,
      fieldNames = []\<rparr>"

text \<open>
  The body of the loop over the declared fields, from the split of the tag to the names
  of the field: it reads the field only, not the numbers seen so far.
\<close>

definition parseTag :: "string \<Rightarrow> Field \<Rightarrow> string \<Rightarrow> error + TagInfo" where
  "parseTag typeName field protoTag =
     (let parts = Split protoTag CHR '','';
          oneof = (TrimSpace (hd parts) = ''oneof'') in
      case parseNumber oneof typeName field protoTag parts of
        Inl e \<Rightarrow> Inl e
      | Inr (num, variants) \<Rightarrow>
          (case selectProtoType oneof protoTag parts (Type field) of
             Inl e \<Rightarrow> Inl e
           | Inr pt \<Rightarrow>
               if pt = ''interface''
               then Inl (InterfaceNotSupported (firstName field) typeName
                           (exprToString (Type field)))
               else
                 (case mapKeyValue (pt = ''map'') protoTag parts (Type field) of
                    Inl e \<Rightarrow> Inl e
                  | Inr (k, v) \<Rightarrow>
                      (case namesOf typeName field protoTag of
                         Inl e \<Rightarrow> Inl e
                       | Inr names \<Rightarrow>
                           Inr ((parseOptions (initLocals oneof num variants pt k v) parts)
                                  \<lparr>fieldNames := names\<rparr>)))))"

text \<open>The descriptor built for one name of the field.\<close>

definition newFieldInfo :: "TagInfo \<Rightarrow> string \<Rightarrow> expr \<Rightarrow> FieldInfo" where
  "newFieldInfo t fieldName ftype =
     (let fi0 = \<lparr>Name = fieldName, GoType = exprToString ftype, FieldNum = fieldNum t,
                 ProtoType = protoType t, IsRepeated = isRepeated t,
                 IsMessage = (protoType t = ''message''), IsPointer = False,
                 IsSliceOfPtr = False, IsOptional = isOptional t, IsEnum = isEnum t,
                 IsMap = isMap t, IsCustom = isCustom t, ElemType = [], RawElemType = [],
                 BaseType = [], NeedsTypeConv = False, ConvType = [], MapKeyType = [],
                 MapValueType = [], MapKeyProto = [], MapValueProto = [],
                 MapValueIsMsg = False, MapValueIsPtr = False, MapValueCustom = False,
                 IsOneof = isOneof t, OneofVariants = oneofVariants t\<rparr>;
          fi1 = analyzeType fi0 ftype;
          fi2 = (if IsMap fi1 then
                   (let m = fi1\<lparr>MapKeyProto := mapKeyProto t, MapValueProto := mapValueProto t,
                               MapValueIsMsg := (mapValueProto t = ''message''),
                               MapValueCustom := mapValueCustom t\<rparr>
                    in case ftype of
                         MapType k v \<Rightarrow>
                           (let m' = m\<lparr>MapKeyType := exprToString k,
                                       MapValueType := exprToString v\<rparr>
                            in case v of StarExpr _ \<Rightarrow> m'\<lparr>MapValueIsPtr := True\<rparr> | _ \<Rightarrow> m')
                       | _ \<Rightarrow> m)
                 else fi1)
      in if IsEnum fi2 then fi2\<lparr>NeedsTypeConv := True, ConvType := ''int32''\<rparr> else fi2)"

text \<open>
  The check of the numbers of a oneof field against \<open>seenFieldNums\<close>, which records
  each variant's number as it goes.
\<close>

fun registerVariants :: "(int \<rightharpoonup> string) \<Rightarrow> string \<Rightarrow> string \<Rightarrow> OneofVariant list \<Rightarrow> error + (int \<rightharpoonup> string)" where
  "registerVariants seen fieldName typeName [] = Inr seen"
| "registerVariants seen fieldName typeName (variant # vs) =
     (case seen (VFieldNum variant) of
        Some existingField \<Rightarrow>
          Inl (DuplicateWithVariant (VFieldNum variant) existingField (TypeName variant) typeName)
      | None \<Rightarrow>
          registerVariants (seen(VFieldNum variant \<mapsto> fieldName @ '':'' @ TypeName variant))
            fieldName typeName vs)"

definition registerNumbers :: "(int \<rightharpoonup> string) \<Rightarrow> string \<Rightarrow> string \<Rightarrow> TagInfo \<Rightarrow> error + (int \<rightharpoonup> string)" where
  "registerNumbers seen fieldName typeName t =
     (if isOneof t then registerVariants seen fieldName typeName (oneofVariants t)
      else (case seen (fieldNum t) of
              Some existingField \<Rightarrow>
                Inl (DuplicateField (fieldNum t) existingField fieldName typeName)
            | None \<Rightarrow> Inr (seen(fieldNum t \<mapsto> fieldName))))"

text \<open>
  The loop over the names of one field. The state is \<open>seenFieldNums\<close> and the descriptor
  \<open>info\<close> under construction.
\<close>

type_synonym pstate = "(int \<rightharpoonup> string) \<times> TypeInfo"

fun addFields :: "string \<Rightarrow> expr \<Rightarrow> TagInfo \<Rightarrow> string list \<Rightarrow> pstate \<Rightarrow> error + pstate" where
  "addFields typeName ftype t [] st = Inr st"
| "addFields typeName ftype t (fieldName # names) (seen, info) =
     (case registerNumbers seen fieldName typeName t of
        Inl e \<Rightarrow> Inl e
      | Inr seen' \<Rightarrow>
          addFields typeName ftype t names
            (seen', info\<lparr>Fields := Fields info @ [newFieldInfo t fieldName ftype]\<rparr>))"

text \<open>The loop over the declared fields; a field without a \<open>protobuf\<close> tag is skipped.\<close>

fun parseFields :: "string \<Rightarrow> Field list \<Rightarrow> pstate \<Rightarrow> error + pstate" where
  "parseFields typeName [] st = Inr st"
| "parseFields typeName (field # rest) st =
     (case Tag field of
        None \<Rightarrow> parseFields typeName rest st
      | Some protoTag \<Rightarrow>
          if protoTag = [] then parseFields typeName rest st
          else (case parseTag typeName field protoTag of
                  Inl e \<Rightarrow> Inl e
                | Inr t \<Rightarrow>
                    (case addFields typeName (Type field) t (fieldNames t) st of
                       Inl e \<Rightarrow> Inl e
                     | Inr st' \<Rightarrow> parseFields typeName rest st')))"

text \<open>
  \<open>sort.Slice\<close> with the comparison \<open>FieldNum i < FieldNum j\<close>, as the insertion sort
  that the library runs on a slice of up to twelve elements: every element in turn is
  swapped with its left neighbour as long as it is less. \<open>sink\<close> works on the reversed
  sorted prefix. On a longer slice the library sorts with another algorithm, which may
  order fields of equal number differently.
\<close>

fun sink :: "FieldInfo \<Rightarrow> FieldInfo list \<Rightarrow> FieldInfo list" where
  "sink x [] = [x]"
| "sink x (y # ys) = (if FieldNum x < FieldNum y then y # sink x ys else x # y # ys)"

definition sortSlice :: "FieldInfo list \<Rightarrow> FieldInfo list" where
  "sortSlice xs = rev (foldl (\<lambda>acc x. sink x acc) [] xs)"

definition parseStruct :: "string \<Rightarrow> Field list \<Rightarrow> error + TypeInfo" where
  "parseStruct typeName fieldList =
     (case parseFields typeName fieldList (Map.empty, \<lparr>TName = typeName, Fields = []\<rparr>) of
        Inl e \<Rightarrow> Inl e
      | Inr (seen, info) \<Rightarrow> Inr (info\<lparr>Fields := sortSlice (Fields info)\<rparr>))"

section \<open>Notions used in the statements\<close>

text \<open>
  The descriptors that a declared field contributes to a successful parse: none for a
  field that the loop skips, one for each of its names otherwise.
\<close>

definition descriptors :: "string \<Rightarrow> Field \<Rightarrow> FieldInfo list" where
  "descriptors typeName field =
     (case Tag field of
        None \<Rightarrow> []
      | Some protoTag \<Rightarrow>
          if protoTag = [] then []
          else (case parseTag typeName field protoTag of
                  Inl e \<Rightarrow> []
                | Inr t \<Rightarrow> map (\<lambda>fieldName. newFieldInfo t fieldName (Type field)) (fieldNames t)))"

text \<open>The state in which \<open>parseStruct\<close> enters the loop over the declared fields.\<close>

definition initState :: "string \<Rightarrow> pstate" where
  "initState typeName = (Map.empty, \<lparr>TName = typeName, Fields = []\<rparr>)"

text \<open>A record declaration used as a running example (the \<open>Chat\<close> type of the tests).\<close>

definition chatFields :: "Field list" where
  "chatFields =
     [\<lparr>Names = [''ID''], Type = Ident ''int64'', Tag = Some ''1''\<rparr>,
      \<lparr>Names = [''Content''], Type = Ident ''Message'',
       Tag = Some ''oneof,TextMessage:2,ImageMessage:3''\<rparr>]"


definition chatInfo :: TypeInfo where
  "chatInfo =
     \<lparr>TName = ''Chat'',
      Fields =
        [\<lparr>Name = ''Content'', GoType = ''Message'', FieldNum = - 1,
          ProtoType = ''oneof'', IsRepeated = False, IsMessage = False,
          IsPointer = False, IsSliceOfPtr = False, IsOptional = False,
          IsEnum = False, IsMap = False, IsCustom = False,
          ElemType = ''Message'', RawElemType = ''Message'',
          BaseType = ''Message'', NeedsTypeConv = False, ConvType = [],
          MapKeyType = [], MapValueType = [], MapKeyProto = [],
          MapValueProto = [], MapValueIsMsg = False,
          MapValueIsPtr = False, MapValueCustom = False, IsOneof = True,
          OneofVariants =
            [\<lparr>TypeName = ''TextMessage'', VFieldNum = 2\<rparr>,
             \<lparr>TypeName = ''ImageMessage'', VFieldNum = 3\<rparr>]\<rparr>,
         \<lparr>Name = ''ID'', GoType = ''int64'', FieldNum = 1,
          ProtoType = ''int64'', IsRepeated = False, IsMessage = False,
          IsPointer = False, IsSliceOfPtr = False, IsOptional = False,
          IsEnum = False, IsMap = False, IsCustom = False,
          ElemType = ''int64'', RawElemType = ''int64'',
          BaseType = ''int64'', NeedsTypeConv = False, ConvType = [],
          MapKeyType = [], MapValueType = [], MapKeyProto = [],
          MapValueProto = [], MapValueIsMsg = False,
          MapValueIsPtr = False, MapValueCustom = False,
          IsOneof = False, OneofVariants = []\<rparr>]\<rparr>"







text \<open>
  A slice that the type analysis marks as repeated: every slice but \<open>[]byte\<close>.
\<close>

fun repeatedSlice :: "expr \<Rightarrow> bool" where
  "repeatedSlice (ArrayType None elt) = (elt \<noteq> Ident ''byte'')"
| "repeatedSlice _ = False"

text \<open>The identifiers that the inference table names.\<close>

definition tableNames :: "string list" where
  "tableNames =
     [''string'', ''bool'', ''int32'', ''int64'', ''int'', ''uint32'', ''uint64'', ''uint'',
      ''float32'', ''float64'', ''byte'', ''any'']"

text \<open>The option words of an ordinary tag: what follows the wire type (and, for a map
  with explicit key and value types, these two).\<close>

definition optionWords :: "bool \<Rightarrow> string list \<Rightarrow> string list" where
  "optionWords ismap parts =
     map TrimSpace (drop (if ismap \<and> length parts \<ge> 4 then 4 else 2) parts)"


text \<open>A declaration whose tags leave the wire type to the inference.\<close>

definition sampleFields :: "Field list" where
  "sampleFields =
     [\<lparr>Names = [''Name''], Type = Ident ''string'', Tag = Some ''1''\<rparr>,
      \<lparr>Names = [''Data''], Type = ArrayType None (Ident ''byte''), Tag = Some ''2''\<rparr>,
      \<lparr>Names = [''Items''], Type = ArrayType None (Ident ''Item''), Tag = Some ''3''\<rparr>,
      \<lparr>Names = [''Sender''], Type = StarExpr (Ident ''User''), Tag = Some ''4''\<rparr>,
      \<lparr>Names = [''Labels''], Type = MapType (Ident ''string'') (Ident ''float64''),
       Tag = Some ''5''\<rparr>,
      \<lparr>Names = [''Ext''], Type = SelectorExpr (Ident ''pkg'') ''Type'', Tag = Some ''6''\<rparr>,
      \<lparr>Names = [''Sum''], Type = ArrayType (Some (BasicLit ''4'')) (Ident ''byte''),
       Tag = Some ''7''\<rparr>,
      \<lparr>Names = [''Ptrs''], Type = ArrayType None (StarExpr (Ident ''Item'')), Tag = Some ''8''\<rparr>,
      \<lparr>Names = [''Skipped''], Type = Ident ''int'', Tag = None\<rparr>]"






text \<open>
  The field numbers of a descriptor: its own number for an ordinary field, the numbers
  of its variants for a oneof field. \<open>tagNumbers\<close> is the same on the local variables.
\<close>

definition numbersOf :: "FieldInfo \<Rightarrow> int list" where
  "numbersOf fi = (if IsOneof fi then map VFieldNum (OneofVariants fi) else [FieldNum fi])"


text \<open>
  The field numbers that the fields of a declaration assign, in the order of the
  declaration: for every tagged field that passes its own checks, its numbers once for
  each of its names.
\<close>

definition allNumbers :: "string \<Rightarrow> Field list \<Rightarrow> int list" where
  "allNumbers typeName fl = concat (map numbersOf (concat (map (descriptors typeName) fl)))"






section \<open>Properties of the library functions and of the sort\<close>


lemma sink_mset: "mset (sink x ys) = add_mset x (mset ys)"
  by (induction ys) auto

lemma sink_set: "set (sink x ys) = insert x (set ys)"
  by (induction ys) auto

lemma sink_desc:
  "sorted (rev (map FieldNum ys)) \<Longrightarrow> sorted (rev (map FieldNum (sink x ys)))"
  by (induction ys) (auto simp: sorted_append sink_set)

lemma foldl_sink_desc:
  "sorted (rev (map FieldNum acc)) \<Longrightarrow>
   sorted (rev (map FieldNum (foldl (\<lambda>acc x. sink x acc) acc xs)))"
  by (induction xs arbitrary: acc) (auto intro: sink_desc)

lemma foldl_sink_mset:
  "mset (foldl (\<lambda>acc x. sink x acc) acc xs) = mset acc + mset xs"
  by (induction xs arbitrary: acc) (auto simp: sink_mset)

lemma sortSlice_sorted: "sorted (map FieldNum (sortSlice xs))"
  using foldl_sink_desc [of "[]" xs] by (simp add: sortSlice_def rev_map)

lemma sortSlice_mset: "mset (sortSlice xs) = mset xs"
  by (simp add: sortSlice_def foldl_sink_mset)

lemma sortSlice_set: "set (sortSlice xs) = set xs"
  using sortSlice_mset [of xs] by (metis set_mset_mset)


section \<open>What the stages of the loop body keep\<close>

lemma analyzeType_keeps:
  "FieldNum (analyzeType fi e) = FieldNum fi"
  "ProtoType (analyzeType fi e) = ProtoType fi"
  "IsOneof (analyzeType fi e) = IsOneof fi"
  "OneofVariants (analyzeType fi e) = OneofVariants fi"
  "IsMap (analyzeType fi e) = IsMap fi"
  "IsEnum (analyzeType fi e) = IsEnum fi"
  "Name (analyzeType fi e) = Name fi"
  "MapKeyProto (analyzeType fi e) = MapKeyProto fi"
  by (induction fi e rule: analyzeType.induct; simp add: Let_def split: expr.splits)+

lemma newFieldInfo_sel:
  "FieldNum (newFieldInfo t nm ty) = fieldNum t"
  "ProtoType (newFieldInfo t nm ty) = protoType t"
  "IsOneof (newFieldInfo t nm ty) = isOneof t"
  "OneofVariants (newFieldInfo t nm ty) = oneofVariants t"
  "IsMap (newFieldInfo t nm ty) = isMap t"
  "Name (newFieldInfo t nm ty) = nm"
  "MapKeyProto (newFieldInfo t nm ty) = (if isMap t then mapKeyProto t else [])"
  by (simp_all add: newFieldInfo_def Let_def analyzeType_keeps split: expr.splits)

lemma applyOption_keeps:
  "fieldNum (applyOption t p) = fieldNum t"
  "protoType (applyOption t p) = protoType t"
  "isOneof (applyOption t p) = isOneof t"
  "oneofVariants (applyOption t p) = oneofVariants t"
  "isMap (applyOption t p) = isMap t"
  "mapKeyProto (applyOption t p) = mapKeyProto t"
  "mapValueProto (applyOption t p) = mapValueProto t"
  "fieldNames (applyOption t p) = fieldNames t"
  by (simp_all add: applyOption_def Let_def)

lemma foldl_applyOption_keeps:
  "fieldNum (foldl applyOption t ps) = fieldNum t"
  "protoType (foldl applyOption t ps) = protoType t"
  "isOneof (foldl applyOption t ps) = isOneof t"
  "oneofVariants (foldl applyOption t ps) = oneofVariants t"
  "isMap (foldl applyOption t ps) = isMap t"
  "mapKeyProto (foldl applyOption t ps) = mapKeyProto t"
  "mapValueProto (foldl applyOption t ps) = mapValueProto t"
  "fieldNames (foldl applyOption t ps) = fieldNames t"
  by (induction ps arbitrary: t; simp add: applyOption_keeps)+

lemma parseOptions_keeps:
  "fieldNum (parseOptions t ps) = fieldNum t"
  "protoType (parseOptions t ps) = protoType t"
  "isOneof (parseOptions t ps) = isOneof t"
  "oneofVariants (parseOptions t ps) = oneofVariants t"
  "isMap (parseOptions t ps) = isMap t"
  "mapKeyProto (parseOptions t ps) = mapKeyProto t"
  "mapValueProto (parseOptions t ps) = mapValueProto t"
  "fieldNames (parseOptions t ps) = fieldNames t"
  by (simp_all add: parseOptions_def Let_def foldl_applyOption_keeps)

lemma parseTag_Inr:
  assumes "parseTag typeName field protoTag = Inr t"
  shows "\<exists>num variants pt k v names.
           parseNumber (TrimSpace (hd (Split protoTag CHR '','')) = ''oneof'') typeName field
             protoTag (Split protoTag CHR '','') = Inr (num, variants)
         \<and> selectProtoType (TrimSpace (hd (Split protoTag CHR '','')) = ''oneof'') protoTag
             (Split protoTag CHR '','') (Type field) = Inr pt
         \<and> pt \<noteq> ''interface''
         \<and> mapKeyValue (pt = ''map'') protoTag (Split protoTag CHR '','') (Type field) = Inr (k, v)
         \<and> namesOf typeName field protoTag = Inr names
         \<and> t = (parseOptions
                  (initLocals (TrimSpace (hd (Split protoTag CHR '','')) = ''oneof'') num variants pt k v)
                  (Split protoTag CHR '',''))\<lparr>fieldNames := names\<rparr>"
  using assms unfolding parseTag_def Let_def
  by (auto split: sum.splits if_splits prod.splits)


section \<open>The loops of \<open>parseStruct\<close>\<close>

lemma addFields_Fields:
  "addFields typeName ftype t names (seen, info) = Inr (seen', info') \<Longrightarrow>
   Fields info' = Fields info @ map (\<lambda>fieldName. newFieldInfo t fieldName ftype) names"
  by (induction names arbitrary: seen info) (auto split: sum.splits)

lemma parseFields_Fields:
  "parseFields typeName fl (seen, info) = Inr (seen', info') \<Longrightarrow>
   Fields info' = Fields info @ concat (map (descriptors typeName) fl)"
proof (induction fl arbitrary: seen info)
  case Nil
  then show ?case by simp
next
  case (Cons f fl)
  show ?case
  proof (cases "Tag f")
    case None
    with Cons show ?thesis by (simp add: descriptors_def)
  next
    case (Some protoTag)
    show ?thesis
    proof (cases "protoTag = []")
      case True
      with Some Cons show ?thesis by (simp add: descriptors_def)
    next
      case False
      from Cons.prems Some False obtain t st where
        t: "parseTag typeName f protoTag = Inr t" and
        a: "addFields typeName (Type f) t (fieldNames t) (seen, info) = Inr st" and
        r: "parseFields typeName fl st = Inr (seen', info')"
        by (auto split: sum.splits)
      obtain seen1 info1 where st: "st = (seen1, info1)" by (cases st)
      from addFields_Fields [OF a [unfolded st]] Cons.IH [OF r [unfolded st]]
      show ?thesis using Some False t by (simp add: descriptors_def)
    qed
  qed
qed


lemma parseFields_each:
  "parseFields typeName fl st = Inr st' \<Longrightarrow> f \<in> set fl \<Longrightarrow> Tag f = Some protoTag \<Longrightarrow>
   protoTag \<noteq> [] \<Longrightarrow> \<exists>t. parseTag typeName f protoTag = Inr t"
  by (induction fl arbitrary: st) (auto split: sum.splits option.splits if_splits)

lemma parseStruct_Inr:
  "parseStruct typeName fl = Inr info \<Longrightarrow>
   \<exists>seen info0. parseFields typeName fl (initState typeName) = Inr (seen, info0)
     \<and> info = info0\<lparr>Fields := sortSlice (Fields info0)\<rparr>
     \<and> Fields info0 = concat (map (descriptors typeName) fl)"
  unfolding parseStruct_def initState_def
  by (auto split: sum.splits dest: parseFields_Fields)

lemma parseStruct_set:
  "parseStruct typeName fl = Inr info \<Longrightarrow>
   set (Fields info) = (\<Union>f\<in>set fl. set (descriptors typeName f))"
  by (auto dest!: parseStruct_Inr simp: sortSlice_set)

lemma parseStruct_each:
  "parseStruct typeName fl = Inr info \<Longrightarrow> f \<in> set fl \<Longrightarrow> Tag f = Some protoTag \<Longrightarrow>
   protoTag \<noteq> [] \<Longrightarrow> \<exists>t. parseTag typeName f protoTag = Inr t"
  by (auto dest!: parseStruct_Inr dest: parseFields_each)

lemma descriptors_elem:
  assumes "fi \<in> set (descriptors typeName f)"
  shows "\<exists>protoTag t fieldName. Tag f = Some protoTag \<and> protoTag \<noteq> []
     \<and> parseTag typeName f protoTag = Inr t \<and> fieldName \<in> set (fieldNames t)
     \<and> fi = newFieldInfo t fieldName (Type f)"
proof (cases "Tag f")
  case None
  with assms show ?thesis by (simp add: descriptors_def)
next
  case (Some protoTag)
  with assms have ne: "protoTag \<noteq> []"
    by (auto simp: descriptors_def)
  show ?thesis
  proof (cases "parseTag typeName f protoTag")
    case (Inl e)
    with assms Some ne show ?thesis by (simp add: descriptors_def)
  next
    case (Inr t)
    with assms Some ne show ?thesis by (auto simp: descriptors_def)
  qed
qed

lemma parseTag_oneof_num:
  "parseTag typeName f protoTag = Inr t \<Longrightarrow> isOneof t \<Longrightarrow> fieldNum t = - 1"
  by (auto dest!: parseTag_Inr simp: parseOptions_keeps initLocals_def parseNumber_def
        split: if_splits sum.splits)

text \<open>The evaluation of the parser on concrete declarations unfolds these definitions.\<close>

lemmas parse_defs =
  parseStruct_def parseTag_def parseNumber_def parseOneof_def parseFieldNum_def
  parseOptions_def applyOption_def initLocals_def selectProtoType_def mapKeyValue_def
  namesOf_def firstName_def newFieldInfo_def registerNumbers_def sortSlice_def Atoi_def
  TrimSpace_def isSpace_def digitVal_def primitiveNames_def isValidProtoType_def
  validProtoTypes_def isValidMapKeyType_def validMapKeyTypes_def Let_def

lemma chat_parses: "parseStruct ''Chat'' chatFields = Inr chatInfo"
  by (simp add: chatFields_def chatInfo_def parse_defs)


section \<open>The order of the descriptors\<close>

text \<open>
  Claim C7. On every declaration that \<open>parseStruct\<close> accepts, the descriptors of the
  result are in ascending order of \<open>FieldNum\<close> (no descriptor has a greater number than
  a later one), where the descriptor of a oneof field carries the sentinel \<open>-1\<close> and not
  a number of its variants.
\<close>

theorem C7_parseStruct_sorted:
  assumes "parseStruct typeName fieldList = Inr info"
  shows "sorted (map FieldNum (Fields info))
       \<and> (\<forall>fi \<in> set (Fields info). IsOneof fi \<longrightarrow> FieldNum fi = - 1)"
proof
  from parseStruct_Inr [OF assms] show "sorted (map FieldNum (Fields info))"
    by (auto simp: sortSlice_sorted)
next
  show "\<forall>fi \<in> set (Fields info). IsOneof fi \<longrightarrow> FieldNum fi = - 1"
  proof (intro ballI impI)
    fix fi assume "fi \<in> set (Fields info)" and o: "IsOneof fi"
    then obtain f where "fi \<in> set (descriptors typeName f)"
      using parseStruct_set [OF assms] by auto
    from descriptors_elem [OF this] o show "FieldNum fi = - 1"
      by (auto simp: newFieldInfo_sel dest: parseTag_oneof_num)
  qed
qed

theorem C7_parseStruct_sorted_witness:
  "parseStruct ''Chat'' chatFields = Inr chatInfo
   \<and> map FieldNum (Fields chatInfo) = [- 1, 1]
   \<and> map IsOneof (Fields chatInfo) = [True, False]
   \<and> sorted (map FieldNum (Fields chatInfo))"
  using C7_parseStruct_sorted [OF chat_parses] chat_parses
  by (simp add: chatInfo_def)


section \<open>Field numbers and oneof variants\<close>














lemma parseTag_ordinary:
  assumes "parseTag typeName f protoTag = Inr t"
    and "TrimSpace (hd (Split protoTag CHR '','')) \<noteq> ''oneof''"
  shows "\<not> isOneof t \<and> oneofVariants t = []
       \<and> parseFieldNum protoTag (Split protoTag CHR '','') = Inr (fieldNum t)
       \<and> selectProtoType False protoTag (Split protoTag CHR '','') (Type f) = Inr (protoType t)
       \<and> protoType t \<noteq> ''interface''"
proof -
  from parseTag_Inr [OF assms(1)] assms(2) obtain num variants pt k v names where
    n: "parseNumber False typeName f protoTag (Split protoTag CHR '','') = Inr (num, variants)"
    and s: "selectProtoType False protoTag (Split protoTag CHR '','') (Type f) = Inr pt"
    and i: "pt \<noteq> ''interface''"
    and t: "t = (parseOptions (initLocals False num variants pt k v)
                   (Split protoTag CHR '',''))\<lparr>fieldNames := names\<rparr>"
    by auto
  from n have "variants = []" and "parseFieldNum protoTag (Split protoTag CHR '','') = Inr num"
    by (auto simp: parseNumber_def split: sum.splits)
  with s i t show ?thesis
    by (simp add: parseOptions_keeps initLocals_def)
qed















section \<open>The range of the field numbers\<close>




section \<open>Inference of the wire type and analysis of the type\<close>

lemma analyzeType_IsRepeated:
  "IsRepeated (analyzeType fi e) = (IsRepeated fi \<or> repeatedSlice e)"
  by (induction fi e rule: analyzeType.induct) (simp_all add: Let_def split: expr.splits)

lemma analyzeType_sized: "analyzeType fi (ArrayType (Some len) elt) = fi"
  by simp

lemma newFieldInfo_IsRepeated:
  "IsRepeated (newFieldInfo t nm ty) = (isRepeated t \<or> repeatedSlice ty)"
  by (simp add: newFieldInfo_def Let_def analyzeType_IsRepeated split: expr.splits)


lemma foldl_applyOption_isRepeated:
  "isRepeated (foldl applyOption t ps) = (isRepeated t \<or> ''repeated'' \<in> set (map TrimSpace ps))"
proof (induction ps arbitrary: t)
  case Nil
  then show ?case by simp
next
  case (Cons p ps)
  have "isRepeated (applyOption t p) = (isRepeated t \<or> TrimSpace p = ''repeated'')"
    by (auto simp: applyOption_def Let_def)
  with Cons.IH [of "applyOption t p"] show ?case by auto
qed

lemma parseOptions_isRepeated:
  "\<not> isOneof t \<Longrightarrow>
   isRepeated (parseOptions t parts) = (isRepeated t \<or> ''repeated'' \<in> set (optionWords (isMap t) parts))"
  by (simp add: parseOptions_def optionWords_def Let_def foldl_applyOption_isRepeated)

lemma parseOptions_oneof: "isOneof t \<Longrightarrow> parseOptions t parts = t"
  by (simp add: parseOptions_def)

lemma parseTag_isRepeated:
  assumes "parseTag typeName f protoTag = Inr t"
  shows "isRepeated t = (\<not> isOneof t \<and>
           ''repeated'' \<in> set (optionWords (protoType t = ''map'') (Split protoTag CHR '','')))"
proof -
  from parseTag_Inr [OF assms] obtain num variants pt k v names where
    t: "t = (parseOptions
                  (initLocals (TrimSpace (hd (Split protoTag CHR '','')) = ''oneof'') num variants pt k v)
                  (Split protoTag CHR '',''))\<lparr>fieldNames := names\<rparr>"
    by blast
  show ?thesis
  proof (cases "TrimSpace (hd (Split protoTag CHR '','')) = ''oneof''")
    case True
    with t show ?thesis by (simp add: parseOptions_oneof initLocals_def)
  next
    case False
    with t show ?thesis
      by (simp add: parseOptions_isRepeated parseOptions_keeps initLocals_def)
  qed
qed

lemma parseTag_inferred:
  assumes "parseTag typeName f protoTag = Inr t"
    and "length (Split protoTag CHR '','') < 2"
    and "TrimSpace (hd (Split protoTag CHR '','')) \<noteq> ''oneof''"
  shows "protoType t = inferProtoType (Type f) \<and> \<not> isRepeated t"
proof -
  from parseTag_ordinary [OF assms(1,3)] assms(2)
  have "protoType t = inferProtoType (Type f)" and "\<not> isOneof t"
    by (auto simp: selectProtoType_def)
  moreover have "optionWords b (Split protoTag CHR '','') = []" for b
    using assms(2) by (simp add: optionWords_def)
  ultimately show ?thesis using parseTag_isRepeated [OF assms(1)] by simp
qed

lemma descriptors_subset:
  "parseStruct typeName fl = Inr info \<Longrightarrow> f \<in> set fl \<Longrightarrow>
   set (descriptors typeName f) \<subseteq> set (Fields info)"
  using parseStruct_set by blast

lemma parseTag_names: "parseTag typeName f protoTag = Inr t \<Longrightarrow> fieldNames t \<noteq> []"
  by (auto dest!: parseTag_Inr simp: namesOf_def Let_def split: if_splits)

lemma descriptors_nonempty:
  assumes "parseStruct typeName fl = Inr info" and "f \<in> set fl"
    and "Tag f = Some protoTag" and "protoTag \<noteq> []"
  shows "descriptors typeName f \<noteq> []"
proof -
  from parseStruct_each [OF assms] obtain t where t: "parseTag typeName f protoTag = Inr t"
    by blast
  with assms(3,4) parseTag_names [OF t] show ?thesis by (simp add: descriptors_def)
qed

lemma descriptors_inferred:
  assumes "fi \<in> set (descriptors typeName f)" and "Tag f = Some protoTag"
    and "length (Split protoTag CHR '','') < 2"
    and "TrimSpace (hd (Split protoTag CHR '','')) \<noteq> ''oneof''"
  shows "ProtoType fi = inferProtoType (Type f) \<and> IsRepeated fi = repeatedSlice (Type f)"
proof -
  from descriptors_elem [OF assms(1)] assms(2) obtain t fieldName where
    t: "parseTag typeName f protoTag = Inr t" and fi: "fi = newFieldInfo t fieldName (Type f)"
    by auto
  from parseTag_inferred [OF t assms(3,4)] show ?thesis
    by (simp add: fi newFieldInfo_sel newFieldInfo_IsRepeated)
qed

lemma sample_parses:
  "\<not> isl (parseStruct ''T'' sampleFields)"
  "map (\<lambda>fi. (Name fi, ProtoType fi, IsRepeated fi)) (Fields (projr (parseStruct ''T'' sampleFields)))
   = [(''Name'', ''string'', False), (''Data'', ''bytes'', False),
      (''Items'', ''message'', True), (''Sender'', ''message'', False),
      (''Labels'', ''map'', False), (''Ext'', ''message'', False),
      (''Sum'', ''int32'', False), (''Ptrs'', ''message'', True)]"
  "map (\<lambda>fi. (GoType fi, BaseType fi, ElemType fi)) (Fields (projr (parseStruct ''T'' sampleFields)))
   = [(''string'', ''string'', ''string''), (''[]byte'', ''[]byte'', ''byte''),
      (''[]Item'', ''Item'', ''Item''), (''*User'', ''User'', ''User''),
      (''map[string]float64'', [], []), (''pkg.Type'', ''pkg.Type'', ''pkg.Type''),
      (''[4]byte'', [], []), (''[]*Item'', ''Item'', ''Item'')]"
  by (simp_all add: sampleFields_def parse_defs)




section \<open>The inference table\<close>

text \<open>
  Claim C4. Without an explicit wire type in the tag, the wire type of a field is the
  one that \<open>inferProtoType\<close> reads off the type expression by the fixed table: the named
  identifiers map as listed, every other identifier is a message, an inline interface
  is \<open>interface\<close>, a qualified name is a message, a pointer has the wire type of what it
  points to, a map type is \<open>map\<close>. The slice \<open>[]byte\<close> is the scalar \<open>bytes\<close> and is not
  repeated; every other slice is repeated and has the wire type of its element. The
  descriptors of an accepted declaration carry exactly these values.
\<close>

theorem C4_inferred_wire_type:
  "inferProtoType (Ident ''string'') = ''string''
   \<and> inferProtoType (Ident ''bool'') = ''bool''
   \<and> inferProtoType (Ident ''int32'') = ''int32''
   \<and> inferProtoType (Ident ''int64'') = ''int64''
   \<and> inferProtoType (Ident ''int'') = ''int64''
   \<and> inferProtoType (Ident ''uint32'') = ''uint32''
   \<and> inferProtoType (Ident ''uint64'') = ''uint64''
   \<and> inferProtoType (Ident ''uint'') = ''uint64''
   \<and> inferProtoType (Ident ''float32'') = ''float''
   \<and> inferProtoType (Ident ''float64'') = ''double''
   \<and> inferProtoType (Ident ''byte'') = ''int32''
   \<and> inferProtoType (Ident ''any'') = ''interface''
   \<and> (name \<notin> set tableNames \<longrightarrow> inferProtoType (Ident name) = ''message'')
   \<and> inferProtoType InterfaceType = ''interface''
   \<and> inferProtoType (SelectorExpr x sel) = ''message''
   \<and> inferProtoType (StarExpr x) = inferProtoType x
   \<and> inferProtoType (MapType k v) = ''map''
   \<and> inferProtoType (ArrayType None (Ident ''byte'')) = ''bytes''
   \<and> (elt \<noteq> Ident ''byte'' \<longrightarrow> inferProtoType (ArrayType None elt) = inferProtoType elt)
   \<and> IsRepeated (analyzeType fi0 e) = (IsRepeated fi0 \<or> repeatedSlice e)
   \<and> \<not> repeatedSlice (ArrayType None (Ident ''byte''))
   \<and> (elt \<noteq> Ident ''byte'' \<longrightarrow> repeatedSlice (ArrayType None elt))
   \<and> (parseStruct typeName fl = Inr info \<and> f \<in> set fl \<and> Tag f = Some protoTag
      \<and> protoTag \<noteq> [] \<and> length (Split protoTag CHR '','') < 2
      \<and> TrimSpace (hd (Split protoTag CHR '','')) \<noteq> ''oneof'' \<longrightarrow>
      descriptors typeName f \<noteq> [] \<and> set (descriptors typeName f) \<subseteq> set (Fields info)
      \<and> (\<forall>fi \<in> set (descriptors typeName f).
            ProtoType fi = inferProtoType (Type f) \<and> IsRepeated fi = repeatedSlice (Type f)))"
proof -
  have tab: "name \<notin> set tableNames \<longrightarrow> inferProtoType (Ident name) = ''message''"
    by (simp add: tableNames_def)
  have whole: "parseStruct typeName fl = Inr info \<and> f \<in> set fl \<and> Tag f = Some protoTag
      \<and> protoTag \<noteq> [] \<and> length (Split protoTag CHR '','') < 2
      \<and> TrimSpace (hd (Split protoTag CHR '','')) \<noteq> ''oneof'' \<longrightarrow>
      descriptors typeName f \<noteq> [] \<and> set (descriptors typeName f) \<subseteq> set (Fields info)
      \<and> (\<forall>fi \<in> set (descriptors typeName f).
            ProtoType fi = inferProtoType (Type f) \<and> IsRepeated fi = repeatedSlice (Type f))"
    using descriptors_nonempty descriptors_subset descriptors_inferred by blast
  show ?thesis
    using tab whole by (simp add: analyzeType_IsRepeated)
qed

theorem C4_inferred_wire_type_witness:
  "\<not> isl (parseStruct ''T'' sampleFields)
   \<and> map (\<lambda>fi. (Name fi, ProtoType fi, IsRepeated fi))
        (Fields (projr (parseStruct ''T'' sampleFields)))
     = [(''Name'', ''string'', False), (''Data'', ''bytes'', False),
        (''Items'', ''message'', True), (''Sender'', ''message'', False),
        (''Labels'', ''map'', False), (''Ext'', ''message'', False),
        (''Sum'', ''int32'', False), (''Ptrs'', ''message'', True)]
   \<and> descriptors ''T'' (sampleFields ! 2) \<noteq> []
   \<and> set (descriptors ''T'' (sampleFields ! 2))
       \<subseteq> set (Fields (projr (parseStruct ''T'' sampleFields)))
   \<and> inferProtoType (Type (sampleFields ! 2)) = ''message''
   \<and> repeatedSlice (Type (sampleFields ! 2))
   \<and> inferProtoType (Ident ''Item'') = ''message''"
proof -
  have p: "parseStruct ''T'' sampleFields = Inr (projr (parseStruct ''T'' sampleFields))"
    using sample_parses(1) by simp
  note w = C4_inferred_wire_type [THEN conjunct2, THEN conjunct2, THEN conjunct2,
      THEN conjunct2, THEN conjunct2, THEN conjunct2, THEN conjunct2, THEN conjunct2,
      THEN conjunct2, THEN conjunct2, THEN conjunct2, THEN conjunct2, THEN conjunct2,
      THEN conjunct2, THEN conjunct2, THEN conjunct2, THEN conjunct2, THEN conjunct2,
      THEN conjunct2, THEN conjunct2, THEN conjunct2, THEN conjunct2, rule_format]
  note t = C4_inferred_wire_type [THEN conjunct2, THEN conjunct2, THEN conjunct2,
      THEN conjunct2, THEN conjunct2, THEN conjunct2, THEN conjunct2, THEN conjunct2,
      THEN conjunct2, THEN conjunct2, THEN conjunct2, THEN conjunct2, THEN conjunct1,
      rule_format]
  have f: "sampleFields ! 2 \<in> set sampleFields"
    "Tag (sampleFields ! 2) = Some ''3''"
    "Type (sampleFields ! 2) = ArrayType None (Ident ''Item'')"
    by (simp_all add: sampleFields_def)
  have s: "length (Split ''3'' CHR '','') < 2" "TrimSpace (hd (Split ''3'' CHR '','')) \<noteq> ''oneof''"
    by (simp_all add: TrimSpace_def isSpace_def)
  from w [of "''T''" sampleFields "projr (parseStruct ''T'' sampleFields)" "sampleFields ! 2" "''3''"]
    p f s
  have "descriptors ''T'' (sampleFields ! 2) \<noteq> []
      \<and> set (descriptors ''T'' (sampleFields ! 2))
           \<subseteq> set (Fields (projr (parseStruct ''T'' sampleFields)))"
    by simp
  moreover have "inferProtoType (Ident ''Item'') = ''message''"
    using t [of "''Item''"] by (simp add: tableNames_def)
  ultimately show ?thesis
    using sample_parses f by simp
qed


section \<open>Arrays of a given length\<close>



section \<open>The first failing check decides the diagnostic\<close>



lemma parseStruct_Inl_isl: "parseStruct typeName fl = Inl e \<Longrightarrow> isl (parseStruct typeName fl)"
  by simp















section \<open>Interface types without a oneof tag\<close>




section \<open>The explicit wire type\<close>









section \<open>The key of a map\<close>










section \<open>The variants of a oneof tag\<close>









section \<open>Uniqueness of the field numbers\<close>









lemma allNumbers_append:
  "allNumbers typeName (xs @ ys) = allNumbers typeName xs @ allNumbers typeName ys"
  by (simp add: allNumbers_def)

























end
